theory Spec2Isabelle
  imports
    Complex_Main
    "HOL-Library.Char_ord"
    "HOL-Library.List_Lexorder"
    "HOL-Library.Sublist"
begin

section \<open>The store\<close>

text \<open>
  The inventory system keeps four tables in a relational store (\<^verbatim>\<open>create_tables\<close> in
  \<^verbatim>\<open>database.py\<close>) and reads and writes them with SQL statements held in its Python
  methods. A table is a list of rows in rowid order. A nullable column is an \<open>option\<close>
  (\<open>None\<close> is SQL \<open>NULL\<close>); a \<open>NOT NULL\<close> column whose Python parameter is typed
  \<open>str\<close>, \<open>int\<close> or \<open>float\<close> is the plain type. Text is a list of bytes, compared
  bytewise as the store's default collation does. The store's \<open>INTEGER\<close> is \<open>int\<close> and
  its \<open>REAL\<close> is \<open>real\<close>: the 64-bit range of the one and the rounding of the other are
  outside this model. The \<open>date\<close> column is filled from the store's clock.
\<close>

record category =
  c_id :: int
  c_name :: string
  c_description :: "string option"

record supplier =
  s_id :: int
  s_name :: string
  s_contact_info :: "string option"
  s_address :: "string option"

record product =
  p_id :: int
  p_name :: string
  p_description :: "string option"
  p_category_id :: "int option"
  p_price :: real
  p_reorder_level :: int

record inv_transaction =
  t_id :: int
  t_product_id :: int
  t_transaction_type :: string
  t_quantity :: int
  t_date :: nat
  t_supplier_id :: "int option"
  t_notes :: "string option"

text \<open>
  Every table is \<open>AUTOINCREMENT\<close>: the store remembers, per table, the largest rowid it
  has ever handed out (\<open>sqlite_sequence\<close>).
\<close>

record store =
  categories :: "category list"
  suppliers :: "supplier list"
  products :: "product list"
  inventory_transactions :: "inv_transaction list"
  seq_categories :: int
  seq_suppliers :: int
  seq_products :: int
  seq_inventory_transactions :: int
  current_timestamp :: nat

definition empty_store :: store where
  "empty_store = \<lparr>categories = [], suppliers = [], products = [],
     inventory_transactions = [], seq_categories = 0, seq_suppliers = 0,
     seq_products = 0, seq_inventory_transactions = 0, current_timestamp = 0\<rparr>"

section \<open>The SQL expressions the queries use\<close>

text \<open>\<open>SUM\<close> skips \<open>NULL\<close>s and is \<open>NULL\<close> when nothing is left to add.\<close>

definition sql_sum :: "('a::monoid_add) option list \<Rightarrow> 'a option" where
  "sql_sum vs = (case List.map_filter id vs of [] \<Rightarrow> None | w # ws \<Rightarrow> Some (sum_list (w # ws)))"


definition coalesce :: "'a option \<Rightarrow> 'a \<Rightarrow> 'a" where
  "coalesce v d = (case v of None \<Rightarrow> d | Some x \<Rightarrow> x)"

text \<open>
  \<^verbatim>\<open>CASE WHEN t.transaction_type = 'IN' THEN t.quantity ELSE 0 END\<close> on a row of \<open>t\<close>
  that a left join may have filled with \<open>NULL\<close>s: there the comparison is \<open>NULL\<close>, which
  is not true, and the \<open>ELSE\<close> branch gives 0.
\<close>

definition case_when_type :: "string \<Rightarrow> inv_transaction option \<Rightarrow> int option" where
  "case_when_type ty t = (case t of None \<Rightarrow> Some 0
     | Some r \<Rightarrow> if t_transaction_type r = ty then Some (t_quantity r) else Some 0)"

text \<open>
  The stock expression shared by every query, over the \<open>t\<close> rows of one group:
  \<^verbatim>\<open>COALESCE(SUM(CASE WHEN t.transaction_type = 'IN' THEN t.quantity ELSE 0 END), 0) -
  COALESCE(SUM(CASE WHEN t.transaction_type = 'OUT' THEN t.quantity ELSE 0 END), 0)\<close>
\<close>

definition current_stock_expr :: "inv_transaction option list \<Rightarrow> int" where
  "current_stock_expr ts =
     coalesce (sql_sum (map (case_when_type ''IN'') ts)) 0 -
     coalesce (sql_sum (map (case_when_type ''OUT'') ts)) 0"

text \<open>
  \<open>a LEFT JOIN b ON on\<close>: every row of \<open>a\<close> with each matching row of \<open>b\<close>, or once with
  \<open>NULL\<close>s when none matches.
\<close>

definition left_join_row :: "'b list \<Rightarrow> ('a \<Rightarrow> 'b \<Rightarrow> bool) \<Rightarrow> 'a \<Rightarrow> ('a \<times> 'b option) list" where
  "left_join_row ys on x = (case filter (on x) ys of [] \<Rightarrow> [(x, None)]
     | m # ms \<Rightarrow> map (\<lambda>y. (x, Some y)) (m # ms))"

definition left_join :: "'a list \<Rightarrow> 'b list \<Rightarrow> ('a \<Rightarrow> 'b \<Rightarrow> bool) \<Rightarrow> ('a \<times> 'b option) list" where
  "left_join xs ys on = concat (map (left_join_row ys on) xs)"

text \<open>
  \<open>GROUP BY\<close>: the rows with equal key form one group. Groups come out in the order of
  their first row; the store promises no order, and the queries below that need one sort.
\<close>

fun group_by :: "('r \<Rightarrow> 'k) \<Rightarrow> 'r list \<Rightarrow> ('k \<times> 'r list) list" where
  "group_by key [] = []"
| "group_by key (r # rs) =
     (key r, r # filter (\<lambda>x. key x = key r) rs) # group_by key (filter (\<lambda>x. key x \<noteq> key r) rs)"

section \<open>Derived stock of one product\<close>

text \<open>
  \<^verbatim>\<open>CRUDOperations.get_product_stock\<close>: the stock expression over
  \<^verbatim>\<open>inventory_transactions WHERE product_id = ?\<close>. An aggregate query without
  \<open>GROUP BY\<close> always yields one row, so the \<^verbatim>\<open>else 0\<close> of the Python is never taken.
\<close>

definition get_product_stock :: "store \<Rightarrow> int \<Rightarrow> int" where
  "get_product_stock s product_id =
     current_stock_expr
       (map Some (filter (\<lambda>t. t_product_id t = product_id) (inventory_transactions s)))"



section \<open>Statements that change the store\<close>

text \<open>
  A statement that breaks a constraint raises and leaves the store as it was. The
  Python methods catch every exception and turn it into \<open>None\<close> or \<open>False\<close>.
\<close>

datatype py_exception = IntegrityError | ValueError

text \<open>\<open>AUTOINCREMENT\<close>: one more than the largest rowid ever used in the table.\<close>

definition next_rowid :: "int \<Rightarrow> int list \<Rightarrow> int" where
  "next_rowid seq ids = fold max ids seq + 1"

text \<open>\<open>try: ... return cursor.lastrowid except Exception: return None\<close>\<close>

definition try_lastrowid :: "store \<Rightarrow> py_exception + (int \<times> store) \<Rightarrow> int option \<times> store" where
  "try_lastrowid s r = (case r of Inl e \<Rightarrow> (None, s) | Inr (rid, s') \<Rightarrow> (Some rid, s'))"

text \<open>\<open>try: ... return cursor.rowcount > 0 except Exception: return False\<close>\<close>

definition try_rowcount :: "store \<Rightarrow> py_exception + (nat \<times> store) \<Rightarrow> bool \<times> store" where
  "try_rowcount s r = (case r of Inl e \<Rightarrow> (False, s) | Inr (n, s') \<Rightarrow> (0 < n, s'))"

subsection \<open>Categories\<close>

text \<open>\<^verbatim>\<open>INSERT INTO categories (name, description)\<close>; \<open>name\<close> is \<open>UNIQUE\<close>.\<close>

definition insert_category :: "store \<Rightarrow> string \<Rightarrow> string option \<Rightarrow> py_exception + (int \<times> store)" where
  "insert_category s name description =
     (let rid = next_rowid (seq_categories s) (map c_id (categories s));
          rows = categories s @ [\<lparr>c_id = rid, c_name = name, c_description = description\<rparr>]
      in if \<not> distinct (map c_name rows) then Inl IntegrityError
         else Inr (rid, s\<lparr>categories := rows, seq_categories := rid\<rparr>))"

definition create_category :: "store \<Rightarrow> string \<Rightarrow> string option \<Rightarrow> int option \<times> store" where
  "create_category s name description = try_lastrowid s (insert_category s name description)"

text \<open>\<^verbatim>\<open>SELECT * FROM categories WHERE id = ?\<close>, \<open>fetchone\<close>\<close>

definition get_category_by_id :: "store \<Rightarrow> int \<Rightarrow> category option" where
  "get_category_by_id s category_id =
     (case filter (\<lambda>c. c_id c = category_id) (categories s) of [] \<Rightarrow> None | c # _ \<Rightarrow> Some c)"

text \<open>\<^verbatim>\<open>UPDATE categories SET name = ?, description = ? WHERE id = ?\<close>\<close>

definition update_categories :: "store \<Rightarrow> int \<Rightarrow> string \<Rightarrow> string option \<Rightarrow> py_exception + (nat \<times> store)" where
  "update_categories s category_id name description =
     (let hit = filter (\<lambda>c. c_id c = category_id) (categories s);
          rows = map (\<lambda>c. if c_id c = category_id
                           then c\<lparr>c_name := name, c_description := description\<rparr> else c) (categories s)
      in if hit \<noteq> [] \<and> \<not> distinct (map c_name rows) then Inl IntegrityError
         else Inr (length hit, s\<lparr>categories := rows\<rparr>))"

definition update_category :: "store \<Rightarrow> int \<Rightarrow> string \<Rightarrow> string option \<Rightarrow> bool \<times> store" where
  "update_category s category_id name description =
     try_rowcount s (update_categories s category_id name description)"

text \<open>
  \<^verbatim>\<open>DELETE FROM categories WHERE id = ?\<close>. Foreign keys are enforced
  (\<^verbatim>\<open>PRAGMA foreign_keys = ON\<close> in \<^verbatim>\<open>connect\<close>): a category that a product refers to
  cannot be deleted.
\<close>

definition delete_from_categories :: "store \<Rightarrow> int \<Rightarrow> py_exception + (nat \<times> store)" where
  "delete_from_categories s category_id =
     (let hit = filter (\<lambda>c. c_id c = category_id) (categories s)
      in if hit \<noteq> [] \<and> (\<exists>p \<in> set (products s). p_category_id p = Some category_id)
         then Inl IntegrityError
         else Inr (length hit,
                s\<lparr>categories := filter (\<lambda>c. c_id c \<noteq> category_id) (categories s)\<rparr>))"

text \<open>
  \<^verbatim>\<open>delete_category\<close>: first \<^verbatim>\<open>SELECT COUNT(*) FROM products WHERE category_id = ?\<close>,
  and \<open>False\<close> at once when the count is positive.
\<close>

definition delete_category :: "store \<Rightarrow> int \<Rightarrow> bool \<times> store" where
  "delete_category s category_id =
     (if 0 < length (filter (\<lambda>p. p_category_id p = Some category_id) (products s))
      then (False, s)
      else try_rowcount s (delete_from_categories s category_id))"

subsection \<open>Suppliers\<close>

definition insert_supplier ::
  "store \<Rightarrow> string \<Rightarrow> string option \<Rightarrow> string option \<Rightarrow> py_exception + (int \<times> store)" where
  "insert_supplier s name contact_info address =
     (let rid = next_rowid (seq_suppliers s) (map s_id (suppliers s))
      in Inr (rid, s\<lparr>suppliers := suppliers s @
                [\<lparr>s_id = rid, s_name = name, s_contact_info = contact_info, s_address = address\<rparr>],
              seq_suppliers := rid\<rparr>))"

definition create_supplier ::
  "store \<Rightarrow> string \<Rightarrow> string option \<Rightarrow> string option \<Rightarrow> int option \<times> store" where
  "create_supplier s name contact_info address =
     try_lastrowid s (insert_supplier s name contact_info address)"

definition get_supplier_by_id :: "store \<Rightarrow> int \<Rightarrow> supplier option" where
  "get_supplier_by_id s supplier_id =
     (case filter (\<lambda>r. s_id r = supplier_id) (suppliers s) of [] \<Rightarrow> None | r # _ \<Rightarrow> Some r)"

definition update_suppliers ::
  "store \<Rightarrow> int \<Rightarrow> string \<Rightarrow> string option \<Rightarrow> string option \<Rightarrow> py_exception + (nat \<times> store)" where
  "update_suppliers s supplier_id name contact_info address =
     Inr (length (filter (\<lambda>r. s_id r = supplier_id) (suppliers s)),
          s\<lparr>suppliers := map (\<lambda>r. if s_id r = supplier_id
                 then r\<lparr>s_name := name, s_contact_info := contact_info, s_address := address\<rparr>
                 else r) (suppliers s)\<rparr>)"

definition update_supplier ::
  "store \<Rightarrow> int \<Rightarrow> string \<Rightarrow> string option \<Rightarrow> string option \<Rightarrow> bool \<times> store" where
  "update_supplier s supplier_id name contact_info address =
     try_rowcount s (update_suppliers s supplier_id name contact_info address)"

definition delete_from_suppliers :: "store \<Rightarrow> int \<Rightarrow> py_exception + (nat \<times> store)" where
  "delete_from_suppliers s supplier_id =
     (let hit = filter (\<lambda>r. s_id r = supplier_id) (suppliers s)
      in if hit \<noteq> [] \<and> (\<exists>t \<in> set (inventory_transactions s). t_supplier_id t = Some supplier_id)
         then Inl IntegrityError
         else Inr (length hit,
                s\<lparr>suppliers := filter (\<lambda>r. s_id r \<noteq> supplier_id) (suppliers s)\<rparr>))"

definition delete_supplier :: "store \<Rightarrow> int \<Rightarrow> bool \<times> store" where
  "delete_supplier s supplier_id =
     (if 0 < length (filter (\<lambda>t. t_supplier_id t = Some supplier_id) (inventory_transactions s))
      then (False, s)
      else try_rowcount s (delete_from_suppliers s supplier_id))"

subsection \<open>Products\<close>

text \<open>A foreign key holds when the referring column is \<open>NULL\<close> or names an existing row.\<close>

definition references :: "int option \<Rightarrow> int list \<Rightarrow> bool" where
  "references fk ids = (case fk of None \<Rightarrow> True | Some i \<Rightarrow> i \<in> set ids)"

definition insert_product ::
  "store \<Rightarrow> string \<Rightarrow> string option \<Rightarrow> int option \<Rightarrow> real \<Rightarrow> int \<Rightarrow> py_exception + (int \<times> store)" where
  "insert_product s name description category_id price reorder_level =
     (let rid = next_rowid (seq_products s) (map p_id (products s))
      in if \<not> references category_id (map c_id (categories s)) then Inl IntegrityError
         else Inr (rid, s\<lparr>products := products s @
                [\<lparr>p_id = rid, p_name = name, p_description = description,
                  p_category_id = category_id, p_price = price, p_reorder_level = reorder_level\<rparr>],
              seq_products := rid\<rparr>))"

definition create_product ::
  "store \<Rightarrow> string \<Rightarrow> string option \<Rightarrow> int option \<Rightarrow> real \<Rightarrow> int \<Rightarrow> int option \<times> store" where
  "create_product s name description category_id price reorder_level =
     try_lastrowid s (insert_product s name description category_id price reorder_level)"

definition update_products ::
  "store \<Rightarrow> int \<Rightarrow> string \<Rightarrow> string option \<Rightarrow> int option \<Rightarrow> real \<Rightarrow> int
     \<Rightarrow> py_exception + (nat \<times> store)" where
  "update_products s product_id name description category_id price reorder_level =
     (let hit = filter (\<lambda>p. p_id p = product_id) (products s)
      in if hit \<noteq> [] \<and> \<not> references category_id (map c_id (categories s)) then Inl IntegrityError
         else Inr (length hit,
                s\<lparr>products := map (\<lambda>p. if p_id p = product_id
                     then p\<lparr>p_name := name, p_description := description,
                            p_category_id := category_id, p_price := price,
                            p_reorder_level := reorder_level\<rparr>
                     else p) (products s)\<rparr>))"

definition update_product ::
  "store \<Rightarrow> int \<Rightarrow> string \<Rightarrow> string option \<Rightarrow> int option \<Rightarrow> real \<Rightarrow> int \<Rightarrow> bool \<times> store" where
  "update_product s product_id name description category_id price reorder_level =
     try_rowcount s (update_products s product_id name description category_id price reorder_level)"

definition delete_from_products :: "store \<Rightarrow> int \<Rightarrow> py_exception + (nat \<times> store)" where
  "delete_from_products s product_id =
     (let hit = filter (\<lambda>p. p_id p = product_id) (products s)
      in if hit \<noteq> [] \<and> (\<exists>t \<in> set (inventory_transactions s). t_product_id t = product_id)
         then Inl IntegrityError
         else Inr (length hit,
                s\<lparr>products := filter (\<lambda>p. p_id p \<noteq> product_id) (products s)\<rparr>))"

definition delete_product :: "store \<Rightarrow> int \<Rightarrow> bool \<times> store" where
  "delete_product s product_id =
     (if 0 < length (filter (\<lambda>t. t_product_id t = product_id) (inventory_transactions s))
      then (False, s)
      else try_rowcount s (delete_from_products s product_id))"

subsection \<open>Transactions\<close>

definition transaction_types :: "string list" where
  "transaction_types = [''IN'', ''OUT'', ''ADJUSTMENT'']"

text \<open>
  \<^verbatim>\<open>INSERT INTO inventory_transactions (product_id, transaction_type, quantity,
  supplier_id, notes)\<close>, with the table's \<open>CHECK\<close> on the type and its two foreign keys.
\<close>

definition insert_transaction ::
  "store \<Rightarrow> int \<Rightarrow> string \<Rightarrow> int \<Rightarrow> int option \<Rightarrow> string option \<Rightarrow> py_exception + (int \<times> store)" where
  "insert_transaction s product_id transaction_type quantity supplier_id notes =
     (let rid = next_rowid (seq_inventory_transactions s) (map t_id (inventory_transactions s))
      in if transaction_type \<notin> set transaction_types
            \<or> product_id \<notin> set (map p_id (products s))
            \<or> \<not> references supplier_id (map s_id (suppliers s))
         then Inl IntegrityError
         else Inr (rid, s\<lparr>inventory_transactions := inventory_transactions s @
                [\<lparr>t_id = rid, t_product_id = product_id, t_transaction_type = transaction_type,
                  t_quantity = quantity, t_date = current_timestamp s,
                  t_supplier_id = supplier_id, t_notes = notes\<rparr>],
              seq_inventory_transactions := rid\<rparr>))"

text \<open>The body of the \<open>try\<close> in \<^verbatim>\<open>create_transaction\<close>: the type is checked first.\<close>

definition create_transaction_body ::
  "store \<Rightarrow> int \<Rightarrow> string \<Rightarrow> int \<Rightarrow> int option \<Rightarrow> string option \<Rightarrow> py_exception + (int \<times> store)" where
  "create_transaction_body s product_id transaction_type quantity supplier_id notes =
     (if transaction_type \<notin> set [''IN'', ''OUT'', ''ADJUSTMENT''] then Inl ValueError
      else insert_transaction s product_id transaction_type quantity supplier_id notes)"

definition create_transaction ::
  "store \<Rightarrow> int \<Rightarrow> string \<Rightarrow> int \<Rightarrow> int option \<Rightarrow> string option \<Rightarrow> int option \<times> store" where
  "create_transaction s product_id transaction_type quantity supplier_id notes =
     try_lastrowid s
       (create_transaction_body s product_id transaction_type quantity supplier_id notes)"

definition update_transactions ::
  "store \<Rightarrow> int \<Rightarrow> int \<Rightarrow> string \<Rightarrow> int \<Rightarrow> int option \<Rightarrow> string option
     \<Rightarrow> py_exception + (nat \<times> store)" where
  "update_transactions s transaction_id product_id transaction_type quantity supplier_id notes =
     (let hit = filter (\<lambda>t. t_id t = transaction_id) (inventory_transactions s)
      in if hit \<noteq> [] \<and> (transaction_type \<notin> set transaction_types
            \<or> product_id \<notin> set (map p_id (products s))
            \<or> \<not> references supplier_id (map s_id (suppliers s)))
         then Inl IntegrityError
         else Inr (length hit,
                s\<lparr>inventory_transactions := map (\<lambda>t. if t_id t = transaction_id
                     then t\<lparr>t_product_id := product_id, t_transaction_type := transaction_type,
                            t_quantity := quantity, t_supplier_id := supplier_id, t_notes := notes\<rparr>
                     else t) (inventory_transactions s)\<rparr>))"

definition update_transaction ::
  "store \<Rightarrow> int \<Rightarrow> int \<Rightarrow> string \<Rightarrow> int \<Rightarrow> int option \<Rightarrow> string option \<Rightarrow> bool \<times> store" where
  "update_transaction s transaction_id product_id transaction_type quantity supplier_id notes =
     try_rowcount s
       (if transaction_type \<notin> set [''IN'', ''OUT'', ''ADJUSTMENT''] then Inl ValueError
        else update_transactions s transaction_id product_id transaction_type quantity
               supplier_id notes)"

text \<open>\<^verbatim>\<open>DELETE FROM inventory_transactions WHERE id = ?\<close>: nothing refers to a transaction.\<close>

definition delete_from_inventory_transactions :: "store \<Rightarrow> int \<Rightarrow> py_exception + (nat \<times> store)" where
  "delete_from_inventory_transactions s transaction_id =
     Inr (length (filter (\<lambda>t. t_id t = transaction_id) (inventory_transactions s)),
          s\<lparr>inventory_transactions :=
               filter (\<lambda>t. t_id t \<noteq> transaction_id) (inventory_transactions s)\<rparr>)"

definition delete_transaction :: "store \<Rightarrow> int \<Rightarrow> bool \<times> store" where
  "delete_transaction s transaction_id =
     try_rowcount s (delete_from_inventory_transactions s transaction_id)"

subsection \<open>Sample data\<close>

text \<open>
  \<^verbatim>\<open>InventoryDatabase.seed_sample_data\<close> inserts four categories, four suppliers, four
  products and six transactions with \<^verbatim>\<open>INSERT OR IGNORE\<close>, outside any \<open>try\<close>.
  \<open>OR IGNORE\<close> skips a row that breaks a \<open>UNIQUE\<close> constraint, which only a category
  can; a broken foreign key still raises, and the exception leaves the method.
\<close>

definition insert_or_ignore_category :: "string \<times> string \<Rightarrow> store \<Rightarrow> store" where
  "insert_or_ignore_category r s =
     (case insert_category s (fst r) (Some (snd r)) of Inl e \<Rightarrow> s | Inr (rid, s') \<Rightarrow> s')"

fun insert_each ::
  "('r \<Rightarrow> store \<Rightarrow> py_exception + (int \<times> store)) \<Rightarrow> 'r list \<Rightarrow> store \<Rightarrow> py_exception + store" where
  "insert_each ins [] s = Inr s"
| "insert_each ins (r # rs) s =
     (case ins r s of Inl e \<Rightarrow> Inl e | Inr (rid, s') \<Rightarrow> insert_each ins rs s')"

definition sample_categories :: "(string \<times> string) list" where
  "sample_categories =
     [(''Electronics'', ''Electronic devices and components''),
      (''Clothing'', ''Apparel and accessories''),
      (''Books'', ''Books and publications''),
      (''Home & Garden'', ''Home improvement and garden supplies'')]"

definition sample_suppliers :: "(string \<times> string \<times> string) list" where
  "sample_suppliers =
     [(''TechCorp Inc.'', ''contact@techcorp.com'', ''123 Tech Street, Silicon Valley, CA''),
      (''Fashion Forward'', ''orders@fashionforward.com'', ''456 Fashion Ave, New York, NY''),
      (''BookWorld'', ''sales@bookworld.com'', ''789 Library Lane, Boston, MA''),
      (''Home Depot'', ''orders@homedepot.com'', ''321 Hardware Road, Atlanta, GA'')]"

definition sample_products :: "(string \<times> string \<times> int \<times> real \<times> int) list" where
  "sample_products =
     [(''Laptop'', ''High-performance laptop'', 1, 99999 / 100, 5),
      (''T-Shirt'', ''Cotton t-shirt'', 2, 1999 / 100, 20),
      (''Python Programming Book'', ''Learn Python programming'', 3, 4999 / 100, 10),
      (''Garden Hose'', ''50ft garden hose'', 4, 2999 / 100, 15)]"

definition sample_transactions :: "(int \<times> string \<times> int \<times> int option \<times> string) list" where
  "sample_transactions =
     [(1, ''IN'', 10, Some 1, ''Initial stock''),
      (2, ''IN'', 50, Some 2, ''Initial stock''),
      (3, ''IN'', 25, Some 3, ''Initial stock''),
      (4, ''IN'', 30, Some 4, ''Initial stock''),
      (1, ''OUT'', 2, None, ''Customer sale''),
      (2, ''OUT'', 5, None, ''Customer sale'')]"

definition seed_sample_data :: "store \<Rightarrow> py_exception + store" where
  "seed_sample_data s =
     (let s1 = fold insert_or_ignore_category sample_categories s
      in case insert_each (\<lambda>(name, contact_info, address) s'.
                  insert_supplier s' name (Some contact_info) (Some address))
                sample_suppliers s1 of
           Inl e \<Rightarrow> Inl e
         | Inr s2 \<Rightarrow>
             (case insert_each (\<lambda>(name, description, category_id, price, reorder_level) s'.
                      insert_product s' name (Some description) (Some category_id) price
                        reorder_level)
                    sample_products s2 of
                Inl e \<Rightarrow> Inl e
              | Inr s3 \<Rightarrow>
                  insert_each (\<lambda>(product_id, transaction_type, quantity, supplier_id, notes) s'.
                      insert_transaction s' product_id transaction_type quantity supplier_id
                        (Some notes))
                    sample_transactions s3))"

subsection \<open>Reachable stores\<close>

text \<open>
  The stores the program can be in: the freshly created one, and whatever the twelve
  mutating methods, a seeding that went through and the passing of time make of a
  reachable store.
\<close>

inductive reachable :: "store \<Rightarrow> bool" where
  r_empty: "reachable empty_store"
| r_tick: "reachable s \<Longrightarrow> reachable (s\<lparr>current_timestamp := current_timestamp s + d\<rparr>)"
| r_seed: "reachable s \<Longrightarrow> seed_sample_data s = Inr s' \<Longrightarrow> reachable s'"
| r_create_category: "reachable s \<Longrightarrow> reachable (snd (create_category s name description))"
| r_update_category: "reachable s \<Longrightarrow> reachable (snd (update_category s i name description))"
| r_delete_category: "reachable s \<Longrightarrow> reachable (snd (delete_category s i))"
| r_create_supplier: "reachable s \<Longrightarrow> reachable (snd (create_supplier s name contact address))"
| r_update_supplier: "reachable s \<Longrightarrow> reachable (snd (update_supplier s i name contact address))"
| r_delete_supplier: "reachable s \<Longrightarrow> reachable (snd (delete_supplier s i))"
| r_create_product:
    "reachable s \<Longrightarrow> reachable (snd (create_product s name description cat price level))"
| r_update_product:
    "reachable s \<Longrightarrow> reachable (snd (update_product s i name description cat price level))"
| r_delete_product: "reachable s \<Longrightarrow> reachable (snd (delete_product s i))"
| r_create_transaction:
    "reachable s \<Longrightarrow> reachable (snd (create_transaction s pid ty q supp notes))"
| r_update_transaction:
    "reachable s \<Longrightarrow> reachable (snd (update_transaction s i pid ty q supp notes))"
| r_delete_transaction: "reachable s \<Longrightarrow> reachable (snd (delete_transaction s i))"



section \<open>Queries over products\<close>

text \<open>
  \<^verbatim>\<open>FROM products p LEFT JOIN categories c ON p.category_id = c.id\<close>; a \<open>NULL\<close>
  \<open>category_id\<close> equals no id.
\<close>

definition products_categories :: "store \<Rightarrow> (product \<times> category option) list" where
  "products_categories s =
     left_join (products s) (categories s) (\<lambda>p c. p_category_id p = Some (c_id c))"

text \<open>\<^verbatim>\<open>... LEFT JOIN inventory_transactions t ON p.id = t.product_id\<close>\<close>

definition products_categories_transactions ::
  "store \<Rightarrow> ((product \<times> category option) \<times> inv_transaction option) list" where
  "products_categories_transactions s =
     left_join (products_categories s) (inventory_transactions s)
       (\<lambda>pc t. p_id (fst pc) = t_product_id t)"

subsection \<open>Search\<close>







subsection \<open>Inventory levels\<close>

record inventory_row =
  i_id :: int
  i_name :: string
  i_description :: "string option"
  i_category_name :: "string option"
  i_price :: real
  i_reorder_level :: int
  i_current_stock :: int

text \<open>
  \<^verbatim>\<open>GROUP BY p.id, p.name, p.description, c.name, p.price, p.reorder_level\<close> and the
  select list of \<^verbatim>\<open>get_current_inventory\<close> and \<^verbatim>\<open>get_low_stock_products\<close>.
\<close>

definition inventory_key ::
  "(product \<times> category option) \<times> inv_transaction option
     \<Rightarrow> int \<times> string \<times> string option \<times> string option \<times> real \<times> int" where
  "inventory_key r =
     (p_id (fst (fst r)), p_name (fst (fst r)), p_description (fst (fst r)),
      map_option c_name (snd (fst r)), p_price (fst (fst r)), p_reorder_level (fst (fst r)))"

definition inventory_select ::
  "(int \<times> string \<times> string option \<times> string option \<times> real \<times> int)
     \<times> ((product \<times> category option) \<times> inv_transaction option) list \<Rightarrow> inventory_row" where
  "inventory_select g =
     (case fst g of (pid, name, description, category_name, price, reorder_level) \<Rightarrow>
        \<lparr>i_id = pid, i_name = name, i_description = description,
         i_category_name = category_name, i_price = price, i_reorder_level = reorder_level,
         i_current_stock = current_stock_expr (map snd (snd g))\<rparr>)"

definition inventory_groups :: "store \<Rightarrow> inventory_row list" where
  "inventory_groups s =
     map inventory_select (group_by inventory_key (products_categories_transactions s))"

text \<open>\<^verbatim>\<open>InventoryDatabase.get_current_inventory\<close>: \<^verbatim>\<open>ORDER BY p.name\<close>\<close>

definition get_current_inventory :: "store \<Rightarrow> inventory_row list" where
  "get_current_inventory s = sort_key i_name (inventory_groups s)"


subsection \<open>Inventory value\<close>





subsection \<open>The most valuable products\<close>






section \<open>The rows the specification expects\<close>




section \<open>A store to compute on\<close>

text \<open>
  One category, one supplier and three products: a laptop that was stocked with 10,
  sold twice and recounted, a shirt stocked with 3, and a hose never moved.
\<close>

definition example_store :: store where
  "example_store =
     \<lparr>categories = [\<lparr>c_id = 1, c_name = ''Electronics'', c_description = Some ''Devices''\<rparr>],
      suppliers = [\<lparr>s_id = 1, s_name = ''TechCorp'', s_contact_info = None, s_address = None\<rparr>],
      products =
        [\<lparr>p_id = 1, p_name = ''Laptop'', p_description = Some ''High-performance laptop'',
          p_category_id = Some 1, p_price = 1000, p_reorder_level = 5\<rparr>,
         \<lparr>p_id = 2, p_name = ''T-Shirt'', p_description = None,
          p_category_id = None, p_price = 20, p_reorder_level = 20\<rparr>,
         \<lparr>p_id = 3, p_name = ''Garden Hose'', p_description = Some ''50ft garden hose'',
          p_category_id = Some 1, p_price = 30, p_reorder_level = 15\<rparr>],
      inventory_transactions =
        [\<lparr>t_id = 1, t_product_id = 1, t_transaction_type = ''IN'', t_quantity = 10,
          t_date = 0, t_supplier_id = Some 1, t_notes = None\<rparr>,
         \<lparr>t_id = 2, t_product_id = 1, t_transaction_type = ''OUT'', t_quantity = 2,
          t_date = 0, t_supplier_id = None, t_notes = None\<rparr>,
         \<lparr>t_id = 3, t_product_id = 2, t_transaction_type = ''IN'', t_quantity = 3,
          t_date = 0, t_supplier_id = None, t_notes = None\<rparr>,
         \<lparr>t_id = 4, t_product_id = 1, t_transaction_type = ''ADJUSTMENT'', t_quantity = 7,
          t_date = 0, t_supplier_id = None, t_notes = Some ''recount''\<rparr>],
      seq_categories = 1, seq_suppliers = 1, seq_products = 3,
      seq_inventory_transactions = 4, current_timestamp = 0\<rparr>"

section \<open>Properties of the SQL expressions\<close>







section \<open>Primary keys, joins and groups\<close>









































section \<open>The example store is reachable\<close>


lemma example_store_built:
  "example_store =
     snd (create_transaction
      (snd (create_transaction
       (snd (create_transaction
        (snd (create_transaction
         (snd (create_product
          (snd (create_product
           (snd (create_product
            (snd (create_supplier
             (snd (create_category empty_store ''Electronics'' (Some ''Devices'')))
             ''TechCorp'' None None))
            ''Laptop'' (Some ''High-performance laptop'') (Some 1) 1000 5))
           ''T-Shirt'' None None 20 20))
          ''Garden Hose'' (Some ''50ft garden hose'') (Some 1) 30 15))
         1 ''IN'' 10 (Some 1) None))
        1 ''OUT'' 2 None None))
       2 ''IN'' 3 None None))
      1 ''ADJUSTMENT'' 7 None (Some ''recount''))"
  by (simp add: example_store_def empty_store_def create_category_def insert_category_def
      create_supplier_def insert_supplier_def create_product_def insert_product_def
      create_transaction_def create_transaction_body_def insert_transaction_def
      try_lastrowid_def next_rowid_def references_def transaction_types_def Let_def)

lemma example_store_reachable: "reachable example_store"
  unfolding example_store_built
  by (intro r_create_transaction r_create_product r_create_supplier r_create_category r_empty)

text \<open>
  Seeding the empty store goes through, and leaves the stock the sample data intends:
  10 - 2 laptops, 50 - 5 shirts, 25 books and 30 hoses.
\<close>

lemma seed_on_empty_store:
  "(case seed_sample_data empty_store of Inl e \<Rightarrow> [] | Inr s \<Rightarrow>
      map (\<lambda>p. (p_name p, get_product_stock s (p_id p))) (products s)) =
     [(''Laptop'', 8), (''T-Shirt'', 45), (''Python Programming Book'', 25), (''Garden Hose'', 30)]"
  by code_simp

section \<open>The derived stock\<close>



section \<open>Low stock\<close>





section \<open>Inventory value\<close>







section \<open>The most valuable products\<close>







section \<open>Creating rows\<close>

lemma try_lastrowid_None: "fst (try_lastrowid s r) = None \<Longrightarrow> snd (try_lastrowid s r) = s"
  by (auto simp: try_lastrowid_def split: sum.splits)

lemma create_category_duplicate:
  "name \<in> c_name ` set (categories s) \<Longrightarrow> create_category s name d = (None, s)"
  by (simp add: create_category_def insert_category_def try_lastrowid_def Let_def)

lemma create_product_no_category:
  "cid \<notin> c_id ` set (categories s) \<Longrightarrow> create_product s name d (Some cid) price lvl = (None, s)"
  by (simp add: create_product_def insert_product_def try_lastrowid_def Let_def references_def)

lemma create_transaction_bad_type:
  "ty \<notin> {''IN'', ''OUT'', ''ADJUSTMENT''} \<Longrightarrow>
     create_transaction_body s pid ty q su n = Inl ValueError \<and>
     create_transaction s pid ty q su n = (None, s)"
  by (simp add: create_transaction_def create_transaction_body_def try_lastrowid_def)

lemma create_transaction_no_product:
  "pid \<notin> p_id ` set (products s) \<Longrightarrow> create_transaction s pid ty q su n = (None, s)"
  by (simp add: create_transaction_def create_transaction_body_def insert_transaction_def
      try_lastrowid_def Let_def)

lemma create_transaction_no_supplier:
  "sid \<notin> s_id ` set (suppliers s) \<Longrightarrow> create_transaction s pid ty q (Some sid) n = (None, s)"
  by (simp add: create_transaction_def create_transaction_body_def insert_transaction_def
      try_lastrowid_def Let_def references_def)

text \<open>
  C4. A create that breaks a constraint returns \<open>None\<close> and leaves the store as it
  was: a category whose name exists already, a product whose category does not exist, a
  transaction whose product or supplier does not exist, a transaction whose type is
  not one of the three. The bad type is refused by the method's own check, which raises
  \<open>ValueError\<close>; the store, which would raise \<open>IntegrityError\<close>, is not asked. In
  general, whenever one of the four creates returns \<open>None\<close> the store is unchanged.
  No exception reaches the caller: each method is a total function to an optional id.
\<close>

theorem C4_create_fails_closed:
  "(name \<in> c_name ` set (categories s) \<longrightarrow> create_category s name d = (None, s))
   \<and> (cid \<notin> c_id ` set (categories s) \<longrightarrow>
        create_product s pname pd (Some cid) price lvl = (None, s))
   \<and> (ty \<notin> {''IN'', ''OUT'', ''ADJUSTMENT''} \<longrightarrow>
        create_transaction_body s pid ty q su n = Inl ValueError \<and>
        create_transaction s pid ty q su n = (None, s))
   \<and> (pid \<notin> p_id ` set (products s) \<longrightarrow> create_transaction s pid ty q su n = (None, s))
   \<and> (sid \<notin> s_id ` set (suppliers s) \<longrightarrow>
        create_transaction s pid ty q (Some sid) n = (None, s))
   \<and> (fst (create_category s name d) = None \<longrightarrow> snd (create_category s name d) = s)
   \<and> (fst (create_supplier s sname c a) = None \<longrightarrow> snd (create_supplier s sname c a) = s)
   \<and> (fst (create_product s pname pd cat price lvl) = None \<longrightarrow>
        snd (create_product s pname pd cat price lvl) = s)
   \<and> (fst (create_transaction s pid ty q su n) = None \<longrightarrow>
        snd (create_transaction s pid ty q su n) = s)"
proof (intro conjI impI)
  show "create_category s name d = (None, s)" if "name \<in> c_name ` set (categories s)"
    using that by (rule create_category_duplicate)
  show "create_product s pname pd (Some cid) price lvl = (None, s)"
    if "cid \<notin> c_id ` set (categories s)"
    using that by (rule create_product_no_category)
  show "create_transaction_body s pid ty q su n = Inl ValueError"
    and "create_transaction s pid ty q su n = (None, s)"
    if "ty \<notin> {''IN'', ''OUT'', ''ADJUSTMENT''}"
    using create_transaction_bad_type[OF that] by simp_all
  show "create_transaction s pid ty q su n = (None, s)" if "pid \<notin> p_id ` set (products s)"
    using that by (rule create_transaction_no_product)
  show "create_transaction s pid ty q (Some sid) n = (None, s)"
    if "sid \<notin> s_id ` set (suppliers s)"
    using that by (rule create_transaction_no_supplier)
  show "snd (create_category s name d) = s" if "fst (create_category s name d) = None"
    using that unfolding create_category_def by (rule try_lastrowid_None)
  show "snd (create_supplier s sname c a) = s" if "fst (create_supplier s sname c a) = None"
    using that unfolding create_supplier_def by (rule try_lastrowid_None)
  show "snd (create_product s pname pd cat price lvl) = s"
    if "fst (create_product s pname pd cat price lvl) = None"
    using that unfolding create_product_def by (rule try_lastrowid_None)
  show "snd (create_transaction s pid ty q su n) = s"
    if "fst (create_transaction s pid ty q su n) = None"
    using that unfolding create_transaction_def by (rule try_lastrowid_None)
qed

text \<open>
  On the example store: a second category Electronics, a product of category 99999, a
  transaction of type INVALID, a transaction for product 7 and one from supplier 7 all
  return \<open>None\<close> and change nothing.
\<close>

theorem C4_witness:
  "create_category example_store ''Electronics'' None = (None, example_store)
   \<and> create_product example_store ''Phone'' None (Some 99999) 10 5 = (None, example_store)
   \<and> create_transaction_body example_store 1 ''INVALID'' 10 None None = Inl ValueError
   \<and> create_transaction example_store 1 ''INVALID'' 10 None None = (None, example_store)
   \<and> create_transaction example_store 7 ''IN'' 10 None None = (None, example_store)
   \<and> create_transaction example_store 1 ''IN'' 10 (Some 7) None = (None, example_store)"
proof -
  have 1: "''Electronics'' \<in> c_name ` set (categories example_store)"
    by (simp add: example_store_def)
  have 2: "99999 \<notin> c_id ` set (categories example_store)"
    by (simp add: example_store_def)
  have 3: "''INVALID'' \<notin> {''IN'', ''OUT'', ''ADJUSTMENT''}" by simp
  have 4: "7 \<notin> p_id ` set (products example_store)" by (simp add: example_store_def)
  have 5: "7 \<notin> s_id ` set (suppliers example_store)" by (simp add: example_store_def)
  show ?thesis
    using 1 2 3 4 5
      C4_create_fails_closed[where s = example_store and name = "''Electronics''" and d = None
        and cid = 99999 and pname = "''Phone''" and pd = None and price = 10 and lvl = 5
        and ty = "''INVALID''" and pid = 1 and q = 10 and su = None and n = None and sid = 7]
      C4_create_fails_closed[where s = example_store and name = "''Electronics''" and d = None
        and cid = 99999 and pname = "''Phone''" and pd = None and price = 10 and lvl = 5
        and ty = "''IN''" and pid = 7 and q = 10 and su = None and n = None and sid = 7]
      C4_create_fails_closed[where s = example_store and name = "''Electronics''" and d = None
        and cid = 99999 and pname = "''Phone''" and pd = None and price = 10 and lvl = 5
        and ty = "''IN''" and pid = 1 and q = 10 and su = None and n = None and sid = 7]
    by simp
qed

section \<open>Deleting rows\<close>

lemma filter_nonempty_mem: "x \<in> set xs \<Longrightarrow> P x \<Longrightarrow> filter P xs \<noteq> []"
  by (auto simp: filter_empty_conv)

lemma delete_category_refused:
  "\<exists>p \<in> set (products s). p_category_id p = Some cid \<Longrightarrow> delete_category s cid = (False, s)"
  by (auto simp: delete_category_def filter_empty_conv)

lemma delete_product_refused:
  "\<exists>t \<in> set (inventory_transactions s). t_product_id t = pid \<Longrightarrow>
     delete_product s pid = (False, s)"
  by (auto simp: delete_product_def filter_empty_conv)

lemma delete_supplier_refused:
  "\<exists>t \<in> set (inventory_transactions s). t_supplier_id t = Some sid \<Longrightarrow>
     delete_supplier s sid = (False, s)"
  by (auto simp: delete_supplier_def filter_empty_conv)

lemma delete_category_done:
  assumes "cid \<in> c_id ` set (categories s)"
    and "\<forall>p \<in> set (products s). p_category_id p \<noteq> Some cid"
  shows "delete_category s cid =
         (True, s\<lparr>categories := filter (\<lambda>c. c_id c \<noteq> cid) (categories s)\<rparr>)"
proof -
  have none: "filter (\<lambda>p. p_category_id p = Some cid) (products s) = []"
    using assms(2) by (simp add: filter_empty_conv)
  have hit: "filter (\<lambda>c. c_id c = cid) (categories s) \<noteq> []"
    using assms(1) by (auto simp: filter_empty_conv)
  show ?thesis
    using none hit assms(2)
    by (simp add: delete_category_def delete_from_categories_def try_rowcount_def Let_def)
qed

lemma delete_product_done:
  assumes "pid \<in> p_id ` set (products s)"
    and "\<forall>t \<in> set (inventory_transactions s). t_product_id t \<noteq> pid"
  shows "delete_product s pid =
         (True, s\<lparr>products := filter (\<lambda>p. p_id p \<noteq> pid) (products s)\<rparr>)"
proof -
  have none: "filter (\<lambda>t. t_product_id t = pid) (inventory_transactions s) = []"
    using assms(2) by (simp add: filter_empty_conv)
  have hit: "filter (\<lambda>p. p_id p = pid) (products s) \<noteq> []"
    using assms(1) by (auto simp: filter_empty_conv)
  show ?thesis
    using none hit assms(2)
    by (simp add: delete_product_def delete_from_products_def try_rowcount_def Let_def)
qed

lemma delete_supplier_done:
  assumes "sid \<in> s_id ` set (suppliers s)"
    and "\<forall>t \<in> set (inventory_transactions s). t_supplier_id t \<noteq> Some sid"
  shows "delete_supplier s sid =
         (True, s\<lparr>suppliers := filter (\<lambda>r. s_id r \<noteq> sid) (suppliers s)\<rparr>)"
proof -
  have none: "filter (\<lambda>t. t_supplier_id t = Some sid) (inventory_transactions s) = []"
    using assms(2) by (simp add: filter_empty_conv)
  have hit: "filter (\<lambda>r. s_id r = sid) (suppliers s) \<noteq> []"
    using assms(1) by (auto simp: filter_empty_conv)
  show ?thesis
    using none hit assms(2)
    by (simp add: delete_supplier_def delete_from_suppliers_def try_rowcount_def Let_def)
qed

text \<open>
  C5. A category that some product refers to is not deleted: the method returns
  \<open>False\<close> and the store is what it was. A category of the table that no product
  refers to is deleted: the method returns \<open>True\<close>, the table loses the rows of that id
  and nothing else changes, and a later lookup of the id finds nothing. Products and
  suppliers follow the same rule with respect to the transactions that refer to them.
\<close>

theorem C5_delete_refuses_dependents:
  "((\<exists>p \<in> set (products s). p_category_id p = Some cid) \<longrightarrow> delete_category s cid = (False, s))
   \<and> ((\<exists>t \<in> set (inventory_transactions s). t_product_id t = pid) \<longrightarrow>
        delete_product s pid = (False, s))
   \<and> ((\<exists>t \<in> set (inventory_transactions s). t_supplier_id t = Some sid) \<longrightarrow>
        delete_supplier s sid = (False, s))
   \<and> (cid \<in> c_id ` set (categories s) \<and> (\<forall>p \<in> set (products s). p_category_id p \<noteq> Some cid) \<longrightarrow>
        delete_category s cid =
          (True, s\<lparr>categories := filter (\<lambda>c. c_id c \<noteq> cid) (categories s)\<rparr>)
        \<and> get_category_by_id (snd (delete_category s cid)) cid = None)
   \<and> (pid \<in> p_id ` set (products s)
        \<and> (\<forall>t \<in> set (inventory_transactions s). t_product_id t \<noteq> pid) \<longrightarrow>
        delete_product s pid =
          (True, s\<lparr>products := filter (\<lambda>p. p_id p \<noteq> pid) (products s)\<rparr>))
   \<and> (sid \<in> s_id ` set (suppliers s)
        \<and> (\<forall>t \<in> set (inventory_transactions s). t_supplier_id t \<noteq> Some sid) \<longrightarrow>
        delete_supplier s sid =
          (True, s\<lparr>suppliers := filter (\<lambda>r. s_id r \<noteq> sid) (suppliers s)\<rparr>)
        \<and> get_supplier_by_id (snd (delete_supplier s sid)) sid = None)"
proof (intro conjI impI)
  show "delete_category s cid = (False, s)"
    if "\<exists>p \<in> set (products s). p_category_id p = Some cid"
    using that by (rule delete_category_refused)
  show "delete_product s pid = (False, s)"
    if "\<exists>t \<in> set (inventory_transactions s). t_product_id t = pid"
    using that by (rule delete_product_refused)
  show "delete_supplier s sid = (False, s)"
    if "\<exists>t \<in> set (inventory_transactions s). t_supplier_id t = Some sid"
    using that by (rule delete_supplier_refused)
  show "delete_category s cid =
          (True, s\<lparr>categories := filter (\<lambda>c. c_id c \<noteq> cid) (categories s)\<rparr>)"
    and "get_category_by_id (snd (delete_category s cid)) cid = None"
    if "cid \<in> c_id ` set (categories s) \<and> (\<forall>p \<in> set (products s). p_category_id p \<noteq> Some cid)"
    using delete_category_done[of cid s] that by (simp_all add: get_category_by_id_def)
  show "delete_product s pid =
          (True, s\<lparr>products := filter (\<lambda>p. p_id p \<noteq> pid) (products s)\<rparr>)"
    if "pid \<in> p_id ` set (products s)
        \<and> (\<forall>t \<in> set (inventory_transactions s). t_product_id t \<noteq> pid)"
    using delete_product_done[of pid s] that by simp
  show "delete_supplier s sid =
          (True, s\<lparr>suppliers := filter (\<lambda>r. s_id r \<noteq> sid) (suppliers s)\<rparr>)"
    and "get_supplier_by_id (snd (delete_supplier s sid)) sid = None"
    if "sid \<in> s_id ` set (suppliers s)
        \<and> (\<forall>t \<in> set (inventory_transactions s). t_supplier_id t \<noteq> Some sid)"
    using delete_supplier_done[of sid s] that by (simp_all add: get_supplier_by_id_def)
qed


text \<open>
  On the example store category 1, product 1 and supplier 1 are in use and stay; the
  hose, product 3, was never moved and goes; a new category Books, with no product, goes
  too and cannot be looked up afterwards.
\<close>

theorem C5_witness:
  "delete_category example_store 1 = (False, example_store)
   \<and> delete_product example_store 1 = (False, example_store)
   \<and> delete_supplier example_store 1 = (False, example_store)
   \<and> fst (delete_product example_store 3) = True
   \<and> map p_id (products (snd (delete_product example_store 3))) = [1, 2]
   \<and> fst (delete_category (snd (create_category example_store ''Books'' None)) 2) = True
   \<and> get_category_by_id
         (snd (delete_category (snd (create_category example_store ''Books'' None)) 2)) 2 = None"
proof -
  let ?s2 = "snd (create_category example_store ''Books'' None)"
  have s2: "?s2 = example_store\<lparr>categories := categories example_store @
               [\<lparr>c_id = 2, c_name = ''Books'', c_description = None\<rparr>], seq_categories := 2\<rparr>"
    by (simp add: create_category_def insert_category_def try_lastrowid_def next_rowid_def
        Let_def example_store_def)
  have a: "\<exists>p \<in> set (products example_store). p_category_id p = Some 1"
    by (simp add: example_store_def)
  have b: "\<exists>t \<in> set (inventory_transactions example_store). t_product_id t = 1"
    by (simp add: example_store_def)
  have c: "\<exists>t \<in> set (inventory_transactions example_store). t_supplier_id t = Some 1"
    by (simp add: example_store_def)
  have d: "3 \<in> p_id ` set (products example_store)
        \<and> (\<forall>t \<in> set (inventory_transactions example_store). t_product_id t \<noteq> 3)"
    by (simp add: example_store_def)
  have e: "2 \<in> c_id ` set (categories ?s2) \<and> (\<forall>p \<in> set (products ?s2). p_category_id p \<noteq> Some 2)"
    unfolding s2 by (simp add: example_store_def)
  note c5 = C5_delete_refuses_dependents[where s = example_store and cid = 1 and pid = 1 and sid = 1]
  note c5d = C5_delete_refuses_dependents[where s = example_store and cid = 1 and pid = 3 and sid = 1]
  note c5e = C5_delete_refuses_dependents[where s = ?s2 and cid = 2 and pid = 1 and sid = 1]
  have 1: "delete_category example_store 1 = (False, example_store)" using c5 a by blast
  have 2: "delete_product example_store 1 = (False, example_store)" using c5 b by blast
  have 3: "delete_supplier example_store 1 = (False, example_store)" using c5 c by blast
  have 4: "delete_product example_store 3 =
      (True, example_store\<lparr>products := filter (\<lambda>p. p_id p \<noteq> 3) (products example_store)\<rparr>)"
    using c5d d by blast
  have "delete_category ?s2 2 =
          (True, ?s2\<lparr>categories := filter (\<lambda>c. c_id c \<noteq> 2) (categories ?s2)\<rparr>)
        \<and> get_category_by_id (snd (delete_category ?s2 2)) 2 = None"
    using c5e e by blast
  then have 5: "fst (delete_category ?s2 2) = True
      \<and> get_category_by_id (snd (delete_category ?s2 2)) 2 = None"
    by (metis fst_conv)
  have 6: "map p_id (products (snd (delete_product example_store 3))) = [1, 2]"
    unfolding 4 by (simp add: example_store_def)
  from 1 2 3 4 5 6 show ?thesis by simp
qed

section \<open>Deleting a transaction\<close>






section \<open>Creating a transaction\<close>




section \<open>Prices\<close>

text \<open>
  C9. The claim is that no reachable store holds a product with a negative price. The
  product table has no check on the price and neither \<^verbatim>\<open>create_product\<close> nor
  \<^verbatim>\<open>update_product\<close> looks at it: updating the laptop of the example store to the
  price -5 succeeds and stores -5, and creating a product at -1 in the empty store
  succeeds and stores -1. Both stores are reachable.
\<close>

theorem C9_negative_price_is_stored:
  "reachable (snd (update_product example_store 1 ''Laptop'' None (Some 1) (- 5) 5))
   \<and> fst (update_product example_store 1 ''Laptop'' None (Some 1) (- 5) 5) = True
   \<and> map p_price (products (snd (update_product example_store 1 ''Laptop'' None (Some 1) (- 5) 5)))
       = [- 5, 20, 30]
   \<and> reachable (snd (create_product empty_store ''Widget'' None None (- 1) 10))
   \<and> fst (create_product empty_store ''Widget'' None None (- 1) 10) = Some 1
   \<and> map p_price (products (snd (create_product empty_store ''Widget'' None None (- 1) 10))) = [- 1]"
proof -
  have 1: "reachable (snd (update_product example_store 1 ''Laptop'' None (Some 1) (- 5) 5))"
    using example_store_reachable by (rule r_update_product)
  have 2: "reachable (snd (create_product empty_store ''Widget'' None None (- 1) 10))"
    using r_empty by (rule r_create_product)
  have 3: "fst (update_product example_store 1 ''Laptop'' None (Some 1) (- 5) 5) = True"
    by (simp add: update_product_def update_products_def try_rowcount_def references_def
        Let_def example_store_def)
  have 4: "map p_price (products (snd (update_product example_store 1 ''Laptop'' None (Some 1) (- 5) 5)))
       = [- 5, 20, 30]"
    by (simp add: update_product_def update_products_def try_rowcount_def references_def
        Let_def example_store_def)
  have 5: "fst (create_product empty_store ''Widget'' None None (- 1) 10) = Some 1"
    by (simp add: create_product_def insert_product_def try_lastrowid_def references_def
        next_rowid_def Let_def empty_store_def)
  have 6: "map p_price (products (snd (create_product empty_store ''Widget'' None None (- 1) 10))) = [- 1]"
    by (simp add: create_product_def insert_product_def try_lastrowid_def references_def
        next_rowid_def Let_def empty_store_def)
  from 1 3 4 2 5 6 show ?thesis by (intro conjI)
qed

section \<open>Search\<close>











end
